theory Spec2Isabelle
  imports Main "HOL-Library.Word"
begin

section \<open>The message handler of arpc (handler.go)\<close>

text \<open>
  The development embeds \<^verbatim>\<open>handler.go\<close>: the handler's configuration record, route
  registration (\<^verbatim>\<open>Handle\<close>), the receive path (\<^verbatim>\<open>Recv\<close>), the send path
  (\<^verbatim>\<open>Send\<close>, \<^verbatim>\<open>SendN\<close>) and the dispatcher (\<^verbatim>\<open>OnMessage\<close>).

  Go values are modelled as follows. A \<^verbatim>\<open>Message\<close> is a byte slice, here a list of
  8-bit words, and the nil slice is the empty list. A function that returns
  \<^verbatim>\<open>(value, error)\<close> returns a pair whose second component is an \<open>error option\<close>
  (\<open>None\<close> is the nil error). A function that mutates an object it holds by pointer
  returns the new value of that object. A panic is an outcome of the call, not an exception
  of the model. The calls a function makes to the pools, the logger and the correlator are
  recorded, in order, as a list of events.
\<close>

subsection \<open>Bytes, errors, outcomes\<close>

type_synonym byte = "8 word"
type_synonym Message = "byte list"
type_synonym Header = "byte list"
type_synonym seqno = "64 word"

datatype error = EOF | ErrUnexpectedEOF | Err string

text \<open>How a Go call ends: it returns, or it panics with a value.\<close>

datatype outcome = Returns | Panics string

subsection \<open>The connection and the byte source\<close>

text \<open>
  \<^verbatim>\<open>net.Conn\<close> as a writer: the bytes it has accepted so far, and how much more it accepts
  before a write fails (\<open>None\<close>: it never fails). \<open>Write\<close> follows the contract of
  \<^verbatim>\<open>io.Writer\<close>: it returns the number of bytes written, and an error exactly when that
  number is less than the length of the buffer.
\<close>

record Conn =
  sent :: "byte list"
  room :: "nat option"
  werr :: error

definition Write :: "Conn \<Rightarrow> byte list \<Rightarrow> (int \<times> error option) \<times> Conn" where
  "Write conn b =
     (case room conn of
        None \<Rightarrow> ((int (length b), None), conn\<lparr>sent := sent conn @ b\<rparr>)
      | Some k \<Rightarrow>
          if length b \<le> k
          then ((int (length b), None), conn\<lparr>sent := sent conn @ b, room := Some (k - length b)\<rparr>)
          else ((int k, Some (werr conn)), conn\<lparr>sent := sent conn @ take k b, room := Some 0\<rparr>))"

text \<open>
  \<^verbatim>\<open>net.Buffers.WriteTo\<close> on a connection without vectored writes: the buffers are
  written one after the other, the counts are summed, and the first failing write ends
  the loop with its error.
\<close>

fun WriteTo :: "byte list list \<Rightarrow> Conn \<Rightarrow> (int \<times> error option) \<times> Conn" where
  "WriteTo [] conn = ((0, None), conn)"
| "WriteTo (b # bs) conn =
     (case Write conn b of
        ((nb, Some e), conn') \<Rightarrow> ((nb, Some e), conn')
      | ((nb, None), conn') \<Rightarrow>
          (case WriteTo bs conn' of ((n, err), conn'') \<Rightarrow> ((nb + n, err), conn'')))"

text \<open>
  An \<^verbatim>\<open>io.Reader\<close>: the bytes that will still arrive, and the error the source returns
  once they are used up (\<open>EOF\<close> when the peer closed the stream). \<open>ReadFull r n\<close> is
  \<^verbatim>\<open>io.ReadFull\<close> on a buffer of \<open>n\<close> bytes: it returns the bytes copied into the
  buffer; with fewer than \<open>n\<close> of them the error is \<open>EOF\<close> only when none was read, and
  an \<open>EOF\<close> after some bytes is \<open>ErrUnexpectedEOF\<close>. A source that blocks forever is
  outside the model.
\<close>

record Reader =
  pending :: "byte list"
  rfail :: error

definition ReadFull :: "Reader \<Rightarrow> nat \<Rightarrow> (byte list \<times> error option) \<times> Reader" where
  "ReadFull r n =
     (if n = 0 then (([], None), r)
      else if n \<le> length (pending r)
      then ((take n (pending r), None), r\<lparr>pending := drop n (pending r)\<rparr>)
      else ((pending r,
             Some (if rfail r = EOF \<and> pending r \<noteq> [] then ErrUnexpectedEOF else rfail r)),
            r\<lparr>pending := []\<rparr>))"

subsection \<open>The wire format\<close>

text \<open>
  \<^verbatim>\<open>handler.go\<close> uses the wire format through declarations that live in other files:
  the constants \<^verbatim>\<open>HeadLen\<close> and \<^verbatim>\<open>MaxMethodLen\<close>, the command kinds, the accessors
  of a message and \<^verbatim>\<open>Header.message()\<close>, which decodes the head and returns the buffer
  of the whole message with the head copied in. They are parameters of the model: every
  function below takes a \<open>wire\<close>, and the theorems hold for all of them. The accessors
  are total here: the dispatcher is handed messages that hold at least a head.

  The three command kinds are distinct constants (a Go switch refuses duplicate cases);
  any other value of the command byte is \<open>CmdOther\<close>.
\<close>

datatype cmd = CmdRequest | CmdNotify | CmdResponse | CmdOther nat

record wire =
  HeadLen :: nat
  MaxMethodLen :: nat
  Cmd :: "Message \<Rightarrow> cmd"
  MethodLen :: "Message \<Rightarrow> nat"
  Method :: "Message \<Rightarrow> string"
  IsAsync :: "Message \<Rightarrow> bool"
  Seq :: "Message \<Rightarrow> seqno"
  message :: "Header \<Rightarrow> Message \<times> error option"

subsection \<open>Handlers, clients, events\<close>

text \<open>
  Modelled from the spec: the dispatch context (\<^verbatim>\<open>Context\<close>, \<^verbatim>\<open>ctxGet\<close>), declared
  outside \<^verbatim>\<open>handler.go\<close>, is "a short-lived pairing of {connection, message} handed to
  a handler".
\<close>

record Context =
  ctxConn :: Conn
  ctxMessage :: Message

text \<open>
  A handler is user code. The dispatcher sees of it only whether the call returns or
  panics, so a \<open>HandlerFunc\<close> maps the context it is given to that outcome.
\<close>

type_synonym HandlerFunc = "Context \<Rightarrow> outcome"

text \<open>The hooks \<^verbatim>\<open>func(net.Conn) error\<close>: they may act on the connection and may fail.\<close>

type_synonym hook = "Conn \<Rightarrow> error option \<times> Conn"

text \<open>
  The struct \<^verbatim>\<open>handler\<close>. \<open>routes\<close> is \<open>None\<close> for the nil map. The reader wrapper
  plays no part in the functions modelled here and is left out.
\<close>

record handler =
  batchRecv :: bool
  batchSend :: bool
  sendQueueSize :: int
  beforeRecv :: "hook option"
  beforeSend :: "hook option"
  routes :: "(string \<rightharpoonup> HandlerFunc) option"

text \<open>\<^verbatim>\<open>h.routes[method]\<close>: reading a nil map finds nothing.\<close>

definition lookup_route :: "handler \<Rightarrow> string \<Rightarrow> HandlerFunc option" where
  "lookup_route h method = (case routes h of None \<Rightarrow> None | Some r \<Rightarrow> r method)"

definition NewHandler :: handler where
  "NewHandler = \<lparr>batchRecv = True, batchSend = True, sendQueueSize = 1024,
                 beforeRecv = None, beforeSend = None, routes = None\<rparr>"

text \<open>
  Modelled from the spec: the client (\<^verbatim>\<open>Client\<close>), declared outside \<^verbatim>\<open>handler.go\<close>.
  Of its fields the handler touches the connection, the reader, the head buffer and the
  correlator: a "session table: seq \<open>\<rightarrow>\<close> a single-use rendezvous slot that the receive
  path writes the matching Response into", and an "async table: seq \<open>\<rightarrow>\<close> a callback
  function, consumed and removed atomically on first match". A session is its channel
  \<^verbatim>\<open>done\<close>, the queue of messages sent on it.
\<close>

record session =
  sessionDone :: "Message list"

record Client =
  Conn :: Conn
  Reader :: Reader
  Head :: Header
  sessionMap :: "seqno \<rightharpoonup> session"
  asyncHandlerMap :: "seqno \<rightharpoonup> HandlerFunc"

text \<open>
  What \<^verbatim>\<open>OnMessage\<close> calls, in the order of the calls: the logger, the context pool
  (\<^verbatim>\<open>ctxGet\<close>, \<^verbatim>\<open>ctxPut\<close>), the message pool (\<^verbatim>\<open>memPut\<close>), the correlator
  (\<^verbatim>\<open>getSession\<close>, \<^verbatim>\<open>getAndDeleteAsyncHandler\<close>, the send on a session's channel),
  and the handler or callback itself. A log event keeps the format string.
\<close>

datatype event =
    Warn string
  | Info string
  | LogError string
  | CtxGet Context
  | CtxPut Context
  | MemPut Message
  | Call Context
  | GetSession seqno
  | GetAndDeleteAsyncHandler seqno
  | SessionSend seqno Message

text \<open>
  A hook is called when it is set: \<^verbatim>\<open>if bh != nil { err = bh(conn) }\<close>. The result is
  the error, nil when no hook is set, and the connection as the hook leaves it.
\<close>

definition run_hook :: "hook option \<Rightarrow> Conn \<Rightarrow> error option \<times> Conn" where
  "run_hook bh conn = (case bh of None \<Rightarrow> (None, conn) | Some f \<Rightarrow> f conn)"

subsection \<open>Handle\<close>

text \<open>
  \<^verbatim>\<open>Handle\<close> creates the route table when it is nil, then panics on a method name
  longer than \<open>MaxMethodLen\<close>, then panics on a name that is registered, and else stores
  the handler. The result is the handler record as the call leaves it and how the call
  ended.
\<close>

definition Handle :: "wire \<Rightarrow> handler \<Rightarrow> string \<Rightarrow> HandlerFunc \<Rightarrow> handler \<times> outcome" where
  "Handle w h method cb =
     (let r = (case routes h of None \<Rightarrow> Map.empty | Some r \<Rightarrow> r);
          h1 = h\<lparr>routes := Some r\<rparr>
      in if length method > MaxMethodLen w
         then (h1, Panics ''invalid method length %v(> MaxMethodLen %v)'')
         else if r method \<noteq> None
         then (h1, Panics ''handler exist for method %v '')
         else (h1\<lparr>routes := Some (r(method \<mapsto> cb))\<rparr>, Returns))"

subsection \<open>Recv\<close>

text \<open>
  \<^verbatim>\<open>Recv\<close> returns the message and the error, and the client as the call leaves it
  (the hook has seen the connection, the reader has been read, the head buffer has been
  filled). \<open>fill buf k bs\<close> is the buffer \<open>buf\<close> after \<open>bs\<close> was copied into it from
  index \<open>k\<close> on.
\<close>

definition fill :: "byte list \<Rightarrow> nat \<Rightarrow> byte list \<Rightarrow> byte list" where
  "fill buf k bs = take k buf @ bs @ drop (k + length bs) buf"

definition Recv :: "wire \<Rightarrow> handler \<Rightarrow> Client \<Rightarrow> (Message \<times> error option) \<times> Client" where
  "Recv w h c =
     (case run_hook (beforeRecv h) (Conn c) of
        (Some e, conn') \<Rightarrow> (([], Some e), c\<lparr>Conn := conn'\<rparr>)
      | (None, conn') \<Rightarrow>
          (case ReadFull (Reader c) (length (Head c)) of
             ((got, Some e), r1) \<Rightarrow>
               (([], Some e), c\<lparr>Conn := conn', Reader := r1, Head := fill (Head c) 0 got\<rparr>)
           | ((got, None), r1) \<Rightarrow>
               (let c1 = c\<lparr>Conn := conn', Reader := r1, Head := fill (Head c) 0 got\<rparr>
                in case message w (Head c1) of
                     (m, Some e) \<Rightarrow> ((m, Some e), c1)
                   | (m, None) \<Rightarrow>
                       if length m > HeadLen w
                       then (case ReadFull (Reader c1) (length m - HeadLen w) of
                               ((rest, err), r2) \<Rightarrow>
                                 ((fill m (HeadLen w) rest, err), c1\<lparr>Reader := r2\<rparr>))
                       else ((m, None), c1))))"

subsection \<open>Send and SendN\<close>

text \<open>
  Both return the count, the error, and the connection as the call leaves it. The count of
  \<^verbatim>\<open>SendN\<close> is the \<^verbatim>\<open>int64\<close> of \<^verbatim>\<open>WriteTo\<close> converted to \<^verbatim>\<open>int\<close>, the same number
  where \<^verbatim>\<open>int\<close> has 64 bits.
\<close>

definition Send :: "handler \<Rightarrow> Conn \<Rightarrow> Message \<Rightarrow> (int \<times> error option) \<times> Conn" where
  "Send h conn m =
     (case run_hook (beforeSend h) conn of
        (Some e, conn') \<Rightarrow> ((- 1, Some e), conn')
      | (None, conn') \<Rightarrow> Write conn' m)"

definition SendN :: "handler \<Rightarrow> Conn \<Rightarrow> byte list list \<Rightarrow> (int \<times> error option) \<times> Conn" where
  "SendN h conn buffers =
     (case run_hook (beforeSend h) conn of
        (Some e, conn') \<Rightarrow> ((- 1, Some e), conn')
      | (None, conn') \<Rightarrow> WriteTo buffers conn')"

subsection \<open>OnMessage\<close>

text \<open>
  Modelled from the spec: \<^verbatim>\<open>ctxGet\<close>, \<^verbatim>\<open>getSession\<close> and
  \<^verbatim>\<open>getAndDeleteAsyncHandler\<close>, declared outside \<^verbatim>\<open>handler.go\<close>. The context pairs
  the connection and the message; a session is looked up in the session table; the async
  callback is found and removed in "a single atomic take-and-remove".
\<close>

definition ctxGet :: "Client \<Rightarrow> Message \<Rightarrow> Context" where
  "ctxGet c msg = \<lparr>ctxConn = Conn c, ctxMessage = msg\<rparr>"

definition getSession :: "Client \<Rightarrow> seqno \<Rightarrow> session option" where
  "getSession c seq = sessionMap c seq"

definition getAndDeleteAsyncHandler :: "Client \<Rightarrow> seqno \<Rightarrow> HandlerFunc option \<times> Client" where
  "getAndDeleteAsyncHandler c seq =
     (asyncHandlerMap c seq, c\<lparr>asyncHandlerMap := (asyncHandlerMap c)(seq := None)\<rparr>)"

text \<open>
  Go runs the deferred calls of a function when it returns or panics, last deferred first,
  and each deferred call sees the panic in flight: it leaves it as it is, or recovers it.
  A deferred call is therefore a function from the outcome so far to the events it causes
  and the outcome it leaves; \<open>run_deferred\<close> takes them in the order they run.
\<close>

type_synonym deferred = "outcome \<Rightarrow> event list \<times> outcome"

fun run_deferred :: "deferred list \<Rightarrow> outcome \<Rightarrow> event list \<times> outcome" where
  "run_deferred [] out = ([], out)"
| "run_deferred (d # ds) out =
     (case d out of (es, out') \<Rightarrow>
        (case run_deferred ds out' of (es', out'') \<Rightarrow> (es @ es', out'')))"

text \<open>
  Modelled from the spec: \<^verbatim>\<open>handlePanic\<close>, declared outside \<^verbatim>\<open>handler.go\<close>. "A
  user-code failure is converted into a recoverable event (logged)": a panic in flight is
  recovered and logged; without one nothing happens.
\<close>

definition handlePanic :: deferred where
  "handlePanic out = (case out of Returns \<Rightarrow> ([], Returns) | Panics v \<Rightarrow> ([LogError v], Returns))"

text \<open>The deferred closure \<^verbatim>\<open>func() { ctxPut(ctx); memPut(msg) }\<close>: it recovers nothing.\<close>

definition release :: "Context \<Rightarrow> Message \<Rightarrow> deferred" where
  "release ctx msg out = ([CtxPut ctx, MemPut msg], out)"

text \<open>
  The block that \<^verbatim>\<open>OnMessage\<close> runs for a found handler and for a taken callback
  (lines 198 to 204 and 226 to 232): get a context, defer the release, defer
  \<^verbatim>\<open>handlePanic\<close>, call. The deferred calls run in the reverse order.
\<close>

definition dispatch :: "HandlerFunc \<Rightarrow> Client \<Rightarrow> Message \<Rightarrow> event list \<times> outcome" where
  "dispatch handler c msg =
     (let ctx = ctxGet c msg
      in case run_deferred [handlePanic, release ctx msg] (handler ctx) of
           (es, out) \<Rightarrow> (CtxGet ctx # Call ctx # es, out))"

text \<open>
  \<^verbatim>\<open>OnMessage\<close> returns the events in the order they happen, the client as the call
  leaves it, and how the call ends.
\<close>

definition OnMessage :: "wire \<Rightarrow> handler \<Rightarrow> Client \<Rightarrow> Message \<Rightarrow> event list \<times> Client \<times> outcome" where
  "OnMessage w h c msg =
     (if Cmd w msg = CmdRequest \<or> Cmd w msg = CmdNotify then
        (if MethodLen w msg = 0
         then ([Warn ''OnMessage: invalid request message with 0 method length, dropped''],
               c, Returns)
         else
           (case lookup_route h (Method w msg) of
              Some handler \<Rightarrow>
                (case dispatch handler c msg of (es, out) \<Rightarrow> (es, c, out))
            | None \<Rightarrow>
                ([MemPut msg, Warn ''OnMessage: invalid method: [%v], no handler''],
                 c, Returns)))
      else if Cmd w msg = CmdResponse then
        (if MethodLen w msg > 0
         then ([Warn ''OnMessage: invalid response message with method length %v, dropped''],
               c, Returns)
         else if \<not> IsAsync w msg then
           (let seq = Seq w msg
            in case getSession c seq of
                 Some s \<Rightarrow>
                   ([GetSession seq, SessionSend seq msg],
                    c\<lparr>sessionMap := (sessionMap c)
                         (seq \<mapsto> s\<lparr>sessionDone := sessionDone s @ [msg]\<rparr>)\<rparr>,
                    Returns)
               | None \<Rightarrow>
                   ([GetSession seq, MemPut msg,
                     Warn ''OnMessage: session not exist or expired''],
                    c, Returns))
         else
           (case getAndDeleteAsyncHandler c (Seq w msg) of
              (Some handler, c') \<Rightarrow>
                (case dispatch handler c' msg of
                   (es, out) \<Rightarrow> (GetAndDeleteAsyncHandler (Seq w msg) # es, c', out))
            | (None, c') \<Rightarrow>
                ([GetAndDeleteAsyncHandler (Seq w msg), MemPut msg,
                  Warn ''OnMessage: async handler not exist or expired''],
                 c', Returns)))
      else ([MemPut msg, Info ''OnMessage: invalid cmd [%v]''], c, Returns))"

subsection \<open>A sample wire format and sample inputs\<close>

text \<open>
  The theorems hold for every wire format. To evaluate the definitions on concrete inputs
  the development uses a small sample format with a head of four bytes: the total length,
  the command (1 request, 2 response, 3 notify), the flags (bit 0: async) with the
  sequence number in the remaining bits, and the method length. A byte that a short
  frame does not have reads as 0.
\<close>

definition sample_cmd :: "byte \<Rightarrow> cmd" where
  "sample_cmd k = (if k = 1 then CmdRequest else if k = 2 then CmdResponse
                   else if k = 3 then CmdNotify else CmdOther (unat k))"

definition byte_at :: "byte list \<Rightarrow> nat \<Rightarrow> byte" where
  "byte_at m i = (if i < length m then m ! i else 0)"

definition sample_wire :: wire where
  "sample_wire =
     \<lparr>HeadLen = 4, MaxMethodLen = 8,
      Cmd = (\<lambda>m. sample_cmd (byte_at m 1)),
      MethodLen = (\<lambda>m. unat (byte_at m 3)),
      Method = (\<lambda>m. map (\<lambda>b. char_of (unat b)) (take (unat (byte_at m 3)) (drop 4 m))),
      IsAsync = (\<lambda>m. odd (unat (byte_at m 2))),
      Seq = (\<lambda>m. of_nat (unat (byte_at m 2) div 2)),
      message = (\<lambda>hb. if unat (byte_at hb 0) < 4 then ([], Some (Err ''invalid head''))
                       else (hb @ replicate (unat (byte_at hb 0) - 4) 0, None))\<rparr>"

definition sample_conn :: Conn where
  "sample_conn = \<lparr>sent = [], room = None, werr = Err ''closed''\<rparr>"

definition sample_client :: Client where
  "sample_client =
     \<lparr>Conn = sample_conn, Reader = \<lparr>pending = [], rfail = EOF\<rparr>, Head = replicate 4 0,
      sessionMap = Map.empty, asyncHandlerMap = Map.empty\<rparr>"

text \<open>A callback that returns and one that panics.\<close>

definition returning :: HandlerFunc where
  "returning ctx = Returns"

definition panicking :: HandlerFunc where
  "panicking ctx = Panics ''boom''"

text \<open>
  A hook that vetoes the operation and leaves the connection as it is.
\<close>

definition vetoing :: hook where
  "vetoing conn = (Some (Err ''not now''), conn)"

text \<open>
  A hook that lets the operation pass and acts on the connection: it changes the error
  that a later failing write returns, as a hook that sets a deadline does.
\<close>

definition passing :: hook where
  "passing conn = (None, conn\<lparr>werr := Err ''deadline''\<rparr>)"

text \<open>The sample client with the bytes \<open>bs\<close> waiting in its reader, then end of stream.\<close>

definition reading :: "byte list \<Rightarrow> Client" where
  "reading bs = sample_client\<lparr>Reader := \<lparr>pending = bs, rfail = EOF\<rparr>\<rparr>"

text \<open>
  The owners of a message that a run of \<^verbatim>\<open>OnMessage\<close> shows: an event hands the message
  over when it returns it to the pool or sends it on a session's channel.
\<close>

fun hands_over :: "Message \<Rightarrow> event \<Rightarrow> bool" where
  "hands_over msg (MemPut m) = (m = msg)"
| "hands_over msg (SessionSend s m) = (m = msg)"
| "hands_over msg _ = False"

section \<open>Properties\<close>

subsection \<open>Auxiliary facts\<close>

lemma sample_request_fields:
  "Cmd sample_wire [6, 1, 0, 2, 104, 105] = CmdRequest"
  "MethodLen sample_wire [6, 1, 0, 2, 104, 105] = 2"
  "Method sample_wire [6, 1, 0, 2, 104, 105] = ''hi''"
  by code_simp+

lemma sample_empty_request_fields:
  "Cmd sample_wire [4, 1, 0, 0] = CmdRequest"
  "MethodLen sample_wire [4, 1, 0, 0] = 0"
  "Method sample_wire [4, 1, 0, 0] = []"
  by code_simp+

lemma sample_response_fields:
  "Cmd sample_wire [4, 2, 7, 0] = CmdResponse"
  "MethodLen sample_wire [4, 2, 7, 0] = 0"
  "IsAsync sample_wire [4, 2, 7, 0]"
  "Seq sample_wire [4, 2, 7, 0] = 3"
  "Cmd sample_wire [4, 2, 6, 0] = CmdResponse"
  "MethodLen sample_wire [4, 2, 6, 0] = 0"
  "\<not> IsAsync sample_wire [4, 2, 6, 0]"
  "Seq sample_wire [4, 2, 6, 0] = 3"
  "Cmd sample_wire [4, 2, 0, 3] = CmdResponse"
  "MethodLen sample_wire [4, 2, 0, 3] = 3"
  by code_simp+

lemma sample_heads:
  "message sample_wire [6, 1, 0, 2] = ([6, 1, 0, 2, 0, 0], None)"
  "message sample_wire [4, 1, 0, 0] = ([4, 1, 0, 0], None)"
  "message sample_wire [2, 1, 0, 0] = ([], Some (Err ''invalid head''))"
  by code_simp+

text \<open>
  Whatever the deferred call that runs first does, the release closure runs after it and
  leaves the outcome as it finds it.
\<close>

lemma run_deferred_release:
  "run_deferred [g, release ctx msg] out =
     (fst (g out) @ [CtxPut ctx, MemPut msg], snd (g out))"
  by (simp add: release_def split: prod.splits)

lemma dispatch_events:
  "dispatch cb c msg =
     ([CtxGet (ctxGet c msg), Call (ctxGet c msg)] @
      (case cb (ctxGet c msg) of Returns \<Rightarrow> [] | Panics v \<Rightarrow> [LogError v]) @
      [CtxPut (ctxGet c msg), MemPut msg], Returns)"
  by (simp add: dispatch_def Let_def release_def handlePanic_def split: outcome.splits)

lemma Write_sent:
  assumes "Write conn b = ((n, err), conn')"
  shows "sent conn' = sent conn @ take (nat n) b \<and> 0 \<le> n \<and> nat n \<le> length b \<and>
         (err = None \<longrightarrow> nat n = length b)"
  using assms by (auto simp: Write_def split: option.splits if_splits)

text \<open>The buffers reach the connection in the order supplied, up to the count returned.\<close>

lemma WriteTo_sent:
  "WriteTo bs conn = ((n, err), conn') \<Longrightarrow>
     sent conn' = sent conn @ take (nat n) (concat bs) \<and> 0 \<le> n \<and>
     (err = None \<longrightarrow> nat n = length (concat bs))"
proof (induction bs arbitrary: conn n err conn')
  case Nil
  then show ?case by simp
next
  case (Cons b bs)
  obtain nb e1 c1 where w: "Write conn b = ((nb, e1), c1)"
    by (metis surj_pair)
  note ws = Write_sent [OF w]
  show ?case
  proof (cases e1)
    case (Some e)
    with Cons.prems w have "n = nb" "conn' = c1" "err = Some e" by simp_all
    with ws show ?thesis by simp
  next
    case None
    obtain n2 e2 c2 where r: "WriteTo bs c1 = ((n2, e2), c2)"
      by (metis surj_pair)
    from Cons.prems w None r have eq: "n = nb + n2" "err = e2" "conn' = c2" by simp_all
    from ws None have nb: "nat nb = length b" "0 \<le> nb" "sent c1 = sent conn @ b" by simp_all
    note ih = Cons.IH [OF r]
    from ih nb eq show ?thesis by (simp add: nat_add_distrib)
  qed
qed

lemma WriteTo_healthy:
  "room conn = None \<Longrightarrow>
     WriteTo bs conn = ((int (length (concat bs)), None), conn\<lparr>sent := sent conn @ concat bs\<rparr>)"
  by (induction bs arbitrary: conn) (simp_all add: Write_def)

lemma ReadFull_enough:
  "n \<le> length (pending r) \<Longrightarrow>
     ReadFull r n = ((take n (pending r), None), r\<lparr>pending := drop n (pending r)\<rparr>)"
  by (simp add: ReadFull_def)

lemma ReadFull_short:
  "length (pending r) < n \<Longrightarrow> \<exists>e. ReadFull r n = ((pending r, Some e), r\<lparr>pending := []\<rparr>)"
  by (simp add: ReadFull_def)

lemma fill_all: "length bs = length buf \<Longrightarrow> fill buf 0 bs = bs"
  by (simp add: fill_def)

lemma fill_tail: "k + length bs = length buf \<Longrightarrow> fill buf k bs = take k buf @ bs"
  by (simp add: fill_def)

text \<open>
  On every path of \<^verbatim>\<open>OnMessage\<close> but two the message is handed over exactly once. The
  two paths are the early returns: a request or notify with method length 0, and a
  response with a method length above 0. There it is handed over to nobody.
\<close>

lemma OnMessage_single_owner:
  "length (filter (hands_over msg) (fst (OnMessage w h c msg))) =
     (if (Cmd w msg = CmdRequest \<or> Cmd w msg = CmdNotify) \<and> MethodLen w msg = 0 \<or>
         Cmd w msg = CmdResponse \<and> MethodLen w msg > 0
      then 0 else 1)"
  by (auto simp: OnMessage_def Let_def dispatch_events getAndDeleteAsyncHandler_def
           split: option.splits outcome.splits)

subsection \<open>Registration\<close>

text \<open>
  Claim C8. A call of \<^verbatim>\<open>Handle\<close> with a method name longer than \<open>MaxMethodLen\<close>, or
  with a name that is registered, panics in the call itself and leaves every route as it
  was: nothing is accepted and nothing is put off to dispatch time. In every other case
  the call returns and the route table is the old one with the handler stored under the
  method name.
\<close>

theorem Handle_fail_fast:
  "(length method > MaxMethodLen w \<longrightarrow>
      (\<exists>v. snd (Handle w h method cb) = Panics v) \<and>
      lookup_route (fst (Handle w h method cb)) = lookup_route h) \<and>
   (lookup_route h method \<noteq> None \<longrightarrow>
      (\<exists>v. snd (Handle w h method cb) = Panics v) \<and>
      lookup_route (fst (Handle w h method cb)) = lookup_route h) \<and>
   (length method \<le> MaxMethodLen w \<and> lookup_route h method = None \<longrightarrow>
      snd (Handle w h method cb) = Returns \<and>
      lookup_route (fst (Handle w h method cb)) = (lookup_route h)(method \<mapsto> cb))"
  by (auto simp: Handle_def Let_def lookup_route_def fun_eq_iff split: option.splits)

text \<open>
  The three cases on the sample format, whose \<open>MaxMethodLen\<close> is 8: a name of twelve
  bytes, the name \<open>echo\<close> registered a second time, and \<open>echo\<close> registered first.
\<close>

theorem Handle_fail_fast_witness:
  "MaxMethodLen sample_wire < length ''far_too_long'' \<and>
   (\<exists>v. snd (Handle sample_wire NewHandler ''far_too_long'' returning) = Panics v) \<and>
   lookup_route (fst (Handle sample_wire NewHandler ''far_too_long'' returning)) =
     lookup_route NewHandler \<and>
   lookup_route (fst (Handle sample_wire NewHandler ''echo'' returning)) ''echo'' \<noteq> None \<and>
   (\<exists>v. snd (Handle sample_wire (fst (Handle sample_wire NewHandler ''echo'' returning))
              ''echo'' panicking) = Panics v) \<and>
   lookup_route (fst (Handle sample_wire (fst (Handle sample_wire NewHandler ''echo'' returning))
                   ''echo'' panicking)) =
     lookup_route (fst (Handle sample_wire NewHandler ''echo'' returning)) \<and>
   length ''echo'' \<le> MaxMethodLen sample_wire \<and> lookup_route NewHandler ''echo'' = None \<and>
   snd (Handle sample_wire NewHandler ''echo'' returning) = Returns \<and>
   lookup_route (fst (Handle sample_wire NewHandler ''echo'' returning)) =
     (lookup_route NewHandler)(''echo'' \<mapsto> returning)"
  using Handle_fail_fast [of sample_wire "''far_too_long''" NewHandler returning]
        Handle_fail_fast [of sample_wire "''echo''"
                            "fst (Handle sample_wire NewHandler ''echo'' returning)" panicking]
        Handle_fail_fast [of sample_wire "''echo''" NewHandler returning]
  by (simp add: sample_wire_def NewHandler_def lookup_route_def Handle_def)

subsection \<open>The dispatcher: messages that are dropped\<close>

text \<open>
  Claim C4. For a message whose command is Request or Notify and whose method length is
  0, \<^verbatim>\<open>OnMessage\<close> logs one warning and returns: it does not panic, it leaves the
  client as it is, and it calls no handler, whatever the route table holds.
\<close>

theorem OnMessage_empty_method_dropped:
  assumes "Cmd w msg = CmdRequest \<or> Cmd w msg = CmdNotify" and "MethodLen w msg = 0"
  shows "OnMessage w h c msg =
           ([Warn ''OnMessage: invalid request message with 0 method length, dropped''],
            c, Returns) \<and>
         (\<forall>ctx. Call ctx \<notin> set (fst (OnMessage w h c msg)))"
  using assms by (simp add: OnMessage_def)

theorem OnMessage_empty_method_dropped_witness:
  "Cmd sample_wire [4, 1, 0, 0] = CmdRequest \<and> MethodLen sample_wire [4, 1, 0, 0] = 0 \<and>
   OnMessage sample_wire (fst (Handle sample_wire NewHandler [] returning)) sample_client
       [4, 1, 0, 0] =
     ([Warn ''OnMessage: invalid request message with 0 method length, dropped''],
      sample_client, Returns) \<and>
   (\<forall>ctx. Call ctx \<notin> set (fst (OnMessage sample_wire
                                   (fst (Handle sample_wire NewHandler [] returning))
                                   sample_client [4, 1, 0, 0])))"
  using OnMessage_empty_method_dropped
          [where w = sample_wire and msg = "[4, 1, 0, 0]"
             and h = "fst (Handle sample_wire NewHandler [] returning)" and c = sample_client]
  by (simp add: sample_empty_request_fields)

text \<open>
  Claim C5. For a message whose command is Response and whose method length is not 0,
  \<^verbatim>\<open>OnMessage\<close> logs one warning and returns. The events hold no session lookup and no
  take of an async callback, and the client, its two tables included, is as it was.
\<close>

theorem OnMessage_response_with_method_dropped:
  assumes "Cmd w msg = CmdResponse" and "MethodLen w msg > 0"
  shows "OnMessage w h c msg =
           ([Warn ''OnMessage: invalid response message with method length %v, dropped''],
            c, Returns) \<and>
         (\<forall>s. GetSession s \<notin> set (fst (OnMessage w h c msg)) \<and>
              GetAndDeleteAsyncHandler s \<notin> set (fst (OnMessage w h c msg)))"
  using assms by (simp add: OnMessage_def)

theorem OnMessage_response_with_method_dropped_witness:
  "Cmd sample_wire [4, 2, 0, 3] = CmdResponse \<and> 0 < MethodLen sample_wire [4, 2, 0, 3] \<and>
   OnMessage sample_wire NewHandler
       (sample_client\<lparr>sessionMap := [0 \<mapsto> \<lparr>sessionDone = []\<rparr>]\<rparr>) [4, 2, 0, 3] =
     ([Warn ''OnMessage: invalid response message with method length %v, dropped''],
      sample_client\<lparr>sessionMap := [0 \<mapsto> \<lparr>sessionDone = []\<rparr>]\<rparr>, Returns)"
  using OnMessage_response_with_method_dropped
          [where w = sample_wire and msg = "[4, 2, 0, 3]" and h = NewHandler
             and c = "sample_client\<lparr>sessionMap := [0 \<mapsto> \<lparr>sessionDone = []\<rparr>]\<rparr>"]
  by (simp add: sample_response_fields)

text \<open>
  Claim C7. For a Request or Notify whose method is not empty and has no handler,
  \<^verbatim>\<open>OnMessage\<close> returns the message to the pool, logs one warning and returns. It calls
  no handler, and it answers nothing: the client and its connection are as they were, so
  no byte is written.
\<close>

theorem OnMessage_no_handler:
  assumes "Cmd w msg = CmdRequest \<or> Cmd w msg = CmdNotify" and "MethodLen w msg \<noteq> 0"
    and "lookup_route h (Method w msg) = None"
  shows "OnMessage w h c msg =
           ([MemPut msg, Warn ''OnMessage: invalid method: [%v], no handler''], c, Returns) \<and>
         (\<forall>ctx. Call ctx \<notin> set (fst (OnMessage w h c msg))) \<and>
         sent (Conn (fst (snd (OnMessage w h c msg)))) = sent (Conn c)"
  using assms by (simp add: OnMessage_def)

theorem OnMessage_no_handler_witness:
  "Cmd sample_wire [6, 1, 0, 2, 104, 105] = CmdRequest \<and>
   MethodLen sample_wire [6, 1, 0, 2, 104, 105] \<noteq> 0 \<and>
   lookup_route (fst (Handle sample_wire NewHandler ''echo'' returning))
     (Method sample_wire [6, 1, 0, 2, 104, 105]) = None \<and>
   OnMessage sample_wire (fst (Handle sample_wire NewHandler ''echo'' returning)) sample_client
       [6, 1, 0, 2, 104, 105] =
     ([MemPut [6, 1, 0, 2, 104, 105], Warn ''OnMessage: invalid method: [%v], no handler''],
      sample_client, Returns)"
proof -
  have r: "lookup_route (fst (Handle sample_wire NewHandler ''echo'' returning)) ''hi'' = None"
    by (simp add: Handle_def NewHandler_def lookup_route_def sample_wire_def)
  from OnMessage_no_handler
         [where w = sample_wire and msg = "[6, 1, 0, 2, 104, 105]"
            and h = "fst (Handle sample_wire NewHandler ''echo'' returning)"
            and c = sample_client] r
  show ?thesis by (simp add: sample_request_fields)
qed

text \<open>
  Claim C1, at the two inputs where the code departs from it. A request with method length
  0 and a response with method length 3 leave \<^verbatim>\<open>OnMessage\<close> with a warning as the only
  event: the message is neither returned to the pool nor sent on a session's channel.
\<close>

theorem OnMessage_drop_skips_memPut:
  "OnMessage sample_wire NewHandler sample_client [4, 1, 0, 0] =
     ([Warn ''OnMessage: invalid request message with 0 method length, dropped''],
      sample_client, Returns) \<and>
   length (filter (hands_over [4, 1, 0, 0])
             (fst (OnMessage sample_wire NewHandler sample_client [4, 1, 0, 0]))) = 0 \<and>
   OnMessage sample_wire NewHandler sample_client [4, 2, 0, 3] =
     ([Warn ''OnMessage: invalid response message with method length %v, dropped''],
      sample_client, Returns) \<and>
   length (filter (hands_over [4, 2, 0, 3])
             (fst (OnMessage sample_wire NewHandler sample_client [4, 2, 0, 3]))) = 0"
  by (simp add: OnMessage_def sample_empty_request_fields sample_response_fields)

subsection \<open>The dispatcher: handlers and callbacks\<close>

text \<open>
  Claim C2. When a Request or Notify finds its handler, and when an async Response takes
  its callback, the events of \<^verbatim>\<open>OnMessage\<close> are: the context is got, the handler is
  called, a panic of the handler is recovered and logged, and then, whether the handler
  returned or panicked, the context is put back and the message is returned to the pool,
  once each and after the call. \<^verbatim>\<open>OnMessage\<close> itself returns in both cases: the panic
  does not leave it.
\<close>

theorem OnMessage_releases_after_call:
  "((Cmd w msg = CmdRequest \<or> Cmd w msg = CmdNotify) \<and> MethodLen w msg \<noteq> 0 \<and>
    lookup_route h (Method w msg) = Some cb \<longrightarrow>
      OnMessage w h c msg =
        ([CtxGet (ctxGet c msg), Call (ctxGet c msg)] @
         (case cb (ctxGet c msg) of Returns \<Rightarrow> [] | Panics v \<Rightarrow> [LogError v]) @
         [CtxPut (ctxGet c msg), MemPut msg], c, Returns)) \<and>
   (Cmd w msg = CmdResponse \<and> MethodLen w msg = 0 \<and> IsAsync w msg \<and>
    getAndDeleteAsyncHandler c (Seq w msg) = (Some cb, c') \<longrightarrow>
      OnMessage w h c msg =
        ([GetAndDeleteAsyncHandler (Seq w msg), CtxGet (ctxGet c' msg), Call (ctxGet c' msg)] @
         (case cb (ctxGet c' msg) of Returns \<Rightarrow> [] | Panics v \<Rightarrow> [LogError v]) @
         [CtxPut (ctxGet c' msg), MemPut msg], c', Returns))"
  by (auto simp: OnMessage_def dispatch_events)

text \<open>
  A request for \<open>hi\<close> whose handler panics, and an async response with sequence number 3
  whose callback returns.
\<close>

theorem OnMessage_releases_after_call_witness:
  "Cmd sample_wire [6, 1, 0, 2, 104, 105] = CmdRequest \<and>
   MethodLen sample_wire [6, 1, 0, 2, 104, 105] \<noteq> 0 \<and>
   lookup_route (fst (Handle sample_wire NewHandler ''hi'' panicking))
     (Method sample_wire [6, 1, 0, 2, 104, 105]) = Some panicking \<and>
   OnMessage sample_wire (fst (Handle sample_wire NewHandler ''hi'' panicking)) sample_client
       [6, 1, 0, 2, 104, 105] =
     ([CtxGet (ctxGet sample_client [6, 1, 0, 2, 104, 105]),
       Call (ctxGet sample_client [6, 1, 0, 2, 104, 105]),
       LogError ''boom'',
       CtxPut (ctxGet sample_client [6, 1, 0, 2, 104, 105]),
       MemPut [6, 1, 0, 2, 104, 105]], sample_client, Returns) \<and>
   Cmd sample_wire [4, 2, 7, 0] = CmdResponse \<and> MethodLen sample_wire [4, 2, 7, 0] = 0 \<and>
   IsAsync sample_wire [4, 2, 7, 0] \<and>
   getAndDeleteAsyncHandler (sample_client\<lparr>asyncHandlerMap := [3 \<mapsto> returning]\<rparr>)
     (Seq sample_wire [4, 2, 7, 0]) = (Some returning, sample_client) \<and>
   OnMessage sample_wire NewHandler (sample_client\<lparr>asyncHandlerMap := [3 \<mapsto> returning]\<rparr>)
       [4, 2, 7, 0] =
     ([GetAndDeleteAsyncHandler 3,
       CtxGet (ctxGet sample_client [4, 2, 7, 0]),
       Call (ctxGet sample_client [4, 2, 7, 0]),
       CtxPut (ctxGet sample_client [4, 2, 7, 0]),
       MemPut [4, 2, 7, 0]], sample_client, Returns)"
proof -
  let ?h = "fst (Handle sample_wire NewHandler ''hi'' panicking)"
  let ?c = "sample_client\<lparr>asyncHandlerMap := [3 \<mapsto> returning]\<rparr>"
  have r: "lookup_route ?h ''hi'' = Some panicking"
    by (simp add: Handle_def NewHandler_def lookup_route_def sample_wire_def)
  have a: "getAndDeleteAsyncHandler ?c 3 = (Some returning, sample_client)"
    by (simp add: getAndDeleteAsyncHandler_def sample_client_def)
  from OnMessage_releases_after_call
         [of sample_wire "[6, 1, 0, 2, 104, 105]" ?h panicking sample_client]
       OnMessage_releases_after_call
         [of sample_wire "[4, 2, 7, 0]" NewHandler returning ?c sample_client]
       r a
  show ?thesis
    by (simp add: sample_request_fields sample_response_fields panicking_def returning_def)
qed

text \<open>
  Claim C6. For a Response with method length 0: when it is not async and the session
  table has no entry for its sequence number, \<^verbatim>\<open>OnMessage\<close> returns the message to the
  pool, logs and returns without a panic; when the table has an entry, the message is sent
  on that session's channel and is not returned to the pool. When it is async and the async
  table has a callback for its sequence number, the callback is taken out of the table and
  called with the panic guard and the deferred release; when the table has none, the
  message is returned to the pool and a warning is logged.
\<close>

theorem OnMessage_response_correlation:
  assumes "Cmd w msg = CmdResponse" and "MethodLen w msg = 0"
  shows
   "(\<not> IsAsync w msg \<and> getSession c (Seq w msg) = None \<longrightarrow>
       OnMessage w h c msg =
         ([GetSession (Seq w msg), MemPut msg, Warn ''OnMessage: session not exist or expired''],
          c, Returns)) \<and>
    (\<not> IsAsync w msg \<and> getSession c (Seq w msg) = Some s \<longrightarrow>
       OnMessage w h c msg =
         ([GetSession (Seq w msg), SessionSend (Seq w msg) msg],
          c\<lparr>sessionMap :=
               (sessionMap c)(Seq w msg \<mapsto> s\<lparr>sessionDone := sessionDone s @ [msg]\<rparr>)\<rparr>,
          Returns)) \<and>
    (IsAsync w msg \<and> asyncHandlerMap c (Seq w msg) = Some cb \<longrightarrow>
       OnMessage w h c msg =
         ([GetAndDeleteAsyncHandler (Seq w msg), CtxGet (ctxGet c msg), Call (ctxGet c msg)] @
          (case cb (ctxGet c msg) of Returns \<Rightarrow> [] | Panics v \<Rightarrow> [LogError v]) @
          [CtxPut (ctxGet c msg), MemPut msg],
          c\<lparr>asyncHandlerMap := (asyncHandlerMap c)(Seq w msg := None)\<rparr>,
          Returns)) \<and>
    (IsAsync w msg \<and> asyncHandlerMap c (Seq w msg) = None \<longrightarrow>
       OnMessage w h c msg =
         ([GetAndDeleteAsyncHandler (Seq w msg), MemPut msg,
           Warn ''OnMessage: async handler not exist or expired''], c, Returns))"
  using assms
  by (auto simp: OnMessage_def Let_def dispatch_events getAndDeleteAsyncHandler_def
                 ctxGet_def fun_upd_idem)

text \<open>
  The four cases with sequence number 3: no session, a session, a panicking callback, no
  callback.
\<close>

theorem OnMessage_response_correlation_witness:
  "Cmd sample_wire [4, 2, 6, 0] = CmdResponse \<and> MethodLen sample_wire [4, 2, 6, 0] = 0 \<and>
   \<not> IsAsync sample_wire [4, 2, 6, 0] \<and>
   getSession sample_client (Seq sample_wire [4, 2, 6, 0]) = None \<and>
   OnMessage sample_wire NewHandler sample_client [4, 2, 6, 0] =
     ([GetSession 3, MemPut [4, 2, 6, 0], Warn ''OnMessage: session not exist or expired''],
      sample_client, Returns) \<and>
   getSession (sample_client\<lparr>sessionMap := [3 \<mapsto> \<lparr>sessionDone = []\<rparr>]\<rparr>)
     (Seq sample_wire [4, 2, 6, 0]) = Some \<lparr>sessionDone = []\<rparr> \<and>
   OnMessage sample_wire NewHandler
       (sample_client\<lparr>sessionMap := [3 \<mapsto> \<lparr>sessionDone = []\<rparr>]\<rparr>) [4, 2, 6, 0] =
     ([GetSession 3, SessionSend 3 [4, 2, 6, 0]],
      sample_client\<lparr>sessionMap := [3 \<mapsto> \<lparr>sessionDone = [[4, 2, 6, 0]]\<rparr>]\<rparr>, Returns) \<and>
   Cmd sample_wire [4, 2, 7, 0] = CmdResponse \<and> MethodLen sample_wire [4, 2, 7, 0] = 0 \<and>
   IsAsync sample_wire [4, 2, 7, 0] \<and>
   asyncHandlerMap (sample_client\<lparr>asyncHandlerMap := [3 \<mapsto> panicking]\<rparr>)
     (Seq sample_wire [4, 2, 7, 0]) = Some panicking \<and>
   OnMessage sample_wire NewHandler (sample_client\<lparr>asyncHandlerMap := [3 \<mapsto> panicking]\<rparr>)
       [4, 2, 7, 0] =
     ([GetAndDeleteAsyncHandler 3,
       CtxGet (ctxGet sample_client [4, 2, 7, 0]),
       Call (ctxGet sample_client [4, 2, 7, 0]),
       LogError ''boom'',
       CtxPut (ctxGet sample_client [4, 2, 7, 0]),
       MemPut [4, 2, 7, 0]], sample_client, Returns) \<and>
   asyncHandlerMap sample_client (Seq sample_wire [4, 2, 7, 0]) = None \<and>
   OnMessage sample_wire NewHandler sample_client [4, 2, 7, 0] =
     ([GetAndDeleteAsyncHandler 3, MemPut [4, 2, 7, 0],
       Warn ''OnMessage: async handler not exist or expired''], sample_client, Returns)"
proof -
  let ?cs = "sample_client\<lparr>sessionMap := [3 \<mapsto> \<lparr>sessionDone = []\<rparr>]\<rparr>"
  let ?ca = "sample_client\<lparr>asyncHandlerMap := [3 \<mapsto> panicking]\<rparr>"
  from OnMessage_response_correlation
         [of sample_wire "[4, 2, 6, 0]" sample_client NewHandler]
       OnMessage_response_correlation
         [of sample_wire "[4, 2, 6, 0]" ?cs NewHandler "\<lparr>sessionDone = []\<rparr>"]
       OnMessage_response_correlation
         [of sample_wire "[4, 2, 7, 0]" ?ca NewHandler _ panicking]
       OnMessage_response_correlation
         [of sample_wire "[4, 2, 7, 0]" sample_client NewHandler]
  show ?thesis
    by (simp add: sample_response_fields getSession_def sample_client_def ctxGet_def
                  panicking_def)
qed

subsection \<open>The empty method name\<close>

text \<open>
  Claim C10. \<^verbatim>\<open>Handle\<close> accepts the empty method name when it is not registered yet:
  the call returns and the handler is stored under the empty string. That handler is never
  invoked. For every message whose method length is the length of its method (the head
  holds the length of the method name), \<^verbatim>\<open>OnMessage\<close> with the handler registered under
  the empty name does exactly what it does without that registration: the same events, the
  same client, the same outcome, whatever the handler is. A Request or Notify with an
  empty method is dropped with a warning, and whenever \<^verbatim>\<open>OnMessage\<close> calls a handler
  for a Request or Notify the method it looked up is not empty.
\<close>

theorem empty_method_handler_unreachable:
  assumes "lookup_route h [] = None"
    and "MethodLen w msg = length (Method w msg)"
  shows
   "snd (Handle w h [] cb) = Returns \<and>
    lookup_route (fst (Handle w h [] cb)) [] = Some cb \<and>
    OnMessage w (fst (Handle w h [] cb)) c msg = OnMessage w h c msg \<and>
    ((Cmd w msg = CmdRequest \<or> Cmd w msg = CmdNotify) \<and> Method w msg = [] \<longrightarrow>
       OnMessage w (fst (Handle w h [] cb)) c msg =
         ([Warn ''OnMessage: invalid request message with 0 method length, dropped''],
          c, Returns)) \<and>
    (Cmd w msg = CmdRequest \<or> Cmd w msg = CmdNotify \<longrightarrow>
       (\<forall>ctx. Call ctx \<in> set (fst (OnMessage w (fst (Handle w h [] cb)) c msg)) \<longrightarrow>
              Method w msg \<noteq> []))"
proof -
  let ?h' = "fst (Handle w h [] cb)"
  have st: "snd (Handle w h [] cb) = Returns" "lookup_route ?h' [] = Some cb"
    using assms(1) by (auto simp: Handle_def Let_def lookup_route_def split: option.splits)
  have other: "lookup_route ?h' k = lookup_route h k" if "k \<noteq> []" for k
    using assms(1) that by (auto simp: Handle_def Let_def lookup_route_def split: option.splits)
  have same: "OnMessage w ?h' c msg = OnMessage w h c msg"
  proof (cases "Method w msg = []")
    case True
    with assms(2) have "MethodLen w msg = 0" by simp
    then show ?thesis by (simp add: OnMessage_def)
  next
    case False
    then show ?thesis by (simp add: OnMessage_def other)
  qed
  have drop: "(Cmd w msg = CmdRequest \<or> Cmd w msg = CmdNotify) \<and> Method w msg = [] \<longrightarrow>
       OnMessage w ?h' c msg =
         ([Warn ''OnMessage: invalid request message with 0 method length, dropped''],
          c, Returns)"
    using assms(2) by (auto simp: OnMessage_def)
  have call: "Cmd w msg = CmdRequest \<or> Cmd w msg = CmdNotify \<longrightarrow>
       (\<forall>ctx. Call ctx \<in> set (fst (OnMessage w ?h' c msg)) \<longrightarrow> Method w msg \<noteq> [])"
    using assms(2) by (auto simp: OnMessage_def)
  from st same drop call show ?thesis by blast
qed

text \<open>
  On the sample format. A request with an empty method meets the table that holds only the
  empty name, with a panicking handler: it is dropped. A request for \<open>hi\<close> meets the same
  table: no handler is found, as with the empty table, and the panicking handler does not
  run. A request for \<open>hi\<close> meets the table that holds \<open>hi\<close> and the empty name: the
  handler called is the one of \<open>hi\<close>.
\<close>

theorem empty_method_handler_unreachable_witness:
  "lookup_route NewHandler [] = None \<and>
   MethodLen sample_wire [4, 1, 0, 0] = length (Method sample_wire [4, 1, 0, 0]) \<and>
   Cmd sample_wire [4, 1, 0, 0] = CmdRequest \<and> Method sample_wire [4, 1, 0, 0] = [] \<and>
   snd (Handle sample_wire NewHandler [] panicking) = Returns \<and>
   lookup_route (fst (Handle sample_wire NewHandler [] panicking)) [] = Some panicking \<and>
   OnMessage sample_wire (fst (Handle sample_wire NewHandler [] panicking)) sample_client
       [4, 1, 0, 0] =
     ([Warn ''OnMessage: invalid request message with 0 method length, dropped''],
      sample_client, Returns) \<and>
   MethodLen sample_wire [6, 1, 0, 2, 104, 105] =
     length (Method sample_wire [6, 1, 0, 2, 104, 105]) \<and>
   OnMessage sample_wire (fst (Handle sample_wire NewHandler [] panicking)) sample_client
       [6, 1, 0, 2, 104, 105] =
     ([MemPut [6, 1, 0, 2, 104, 105], Warn ''OnMessage: invalid method: [%v], no handler''],
      sample_client, Returns) \<and>
   lookup_route (fst (Handle sample_wire NewHandler ''hi'' returning)) [] = None \<and>
   Cmd sample_wire [6, 1, 0, 2, 104, 105] = CmdRequest \<and>
   OnMessage sample_wire
       (fst (Handle sample_wire (fst (Handle sample_wire NewHandler ''hi'' returning))
               [] panicking))
       sample_client [6, 1, 0, 2, 104, 105] =
     ([CtxGet (ctxGet sample_client [6, 1, 0, 2, 104, 105]),
       Call (ctxGet sample_client [6, 1, 0, 2, 104, 105]),
       CtxPut (ctxGet sample_client [6, 1, 0, 2, 104, 105]),
       MemPut [6, 1, 0, 2, 104, 105]], sample_client, Returns) \<and>
   Method sample_wire [6, 1, 0, 2, 104, 105] \<noteq> []"
proof -
  let ?h1 = "fst (Handle sample_wire NewHandler ''hi'' returning)"
  let ?req = "[6, 1, 0, 2, 104, 105] :: Message"
  have r: "lookup_route NewHandler [] = None"
    by (simp add: NewHandler_def lookup_route_def)
  have r1: "lookup_route ?h1 [] = None"
    by (simp add: Handle_def NewHandler_def lookup_route_def sample_wire_def)
  have r0: "lookup_route NewHandler ''hi'' = None"
    by (simp add: NewHandler_def lookup_route_def)
  have r2: "lookup_route ?h1 ''hi'' = Some returning"
    by (simp add: Handle_def NewHandler_def lookup_route_def sample_wire_def)
  have l0: "MethodLen sample_wire [4, 1, 0, 0] = length (Method sample_wire [4, 1, 0, 0])"
    by (simp add: sample_empty_request_fields)
  have l1: "MethodLen sample_wire ?req = length (Method sample_wire ?req)"
    by (simp add: sample_request_fields)
  have none: "OnMessage sample_wire NewHandler sample_client ?req =
                ([MemPut ?req, Warn ''OnMessage: invalid method: [%v], no handler''],
                 sample_client, Returns)"
    using r0 by (simp add: OnMessage_def sample_request_fields)
  have hi: "OnMessage sample_wire ?h1 sample_client ?req =
              ([CtxGet (ctxGet sample_client ?req), Call (ctxGet sample_client ?req),
                CtxPut (ctxGet sample_client ?req), MemPut ?req], sample_client, Returns)"
    using r2 by (simp add: OnMessage_def sample_request_fields dispatch_events returning_def)
  from empty_method_handler_unreachable [OF r l0, of panicking sample_client]
       sample_empty_request_fields(1) sample_empty_request_fields(3)
  have a: "snd (Handle sample_wire NewHandler [] panicking) = Returns \<and>
           lookup_route (fst (Handle sample_wire NewHandler [] panicking)) [] = Some panicking \<and>
           OnMessage sample_wire (fst (Handle sample_wire NewHandler [] panicking)) sample_client
               [4, 1, 0, 0] =
             ([Warn ''OnMessage: invalid request message with 0 method length, dropped''],
              sample_client, Returns)"
    by blast
  from empty_method_handler_unreachable [OF r l1, of panicking sample_client]
  have "OnMessage sample_wire (fst (Handle sample_wire NewHandler [] panicking)) sample_client
            ?req = OnMessage sample_wire NewHandler sample_client ?req"
    by blast
  with none
  have b: "OnMessage sample_wire (fst (Handle sample_wire NewHandler [] panicking)) sample_client
            ?req =
             ([MemPut ?req, Warn ''OnMessage: invalid method: [%v], no handler''],
              sample_client, Returns)"
    by simp
  from empty_method_handler_unreachable [OF r1 l1, of panicking sample_client]
  have "OnMessage sample_wire (fst (Handle sample_wire ?h1 [] panicking)) sample_client ?req =
          OnMessage sample_wire ?h1 sample_client ?req"
    by blast
  with hi
  have c: "OnMessage sample_wire (fst (Handle sample_wire ?h1 [] panicking)) sample_client ?req =
             ([CtxGet (ctxGet sample_client ?req), Call (ctxGet sample_client ?req),
               CtxPut (ctxGet sample_client ?req), MemPut ?req], sample_client, Returns)"
    by simp
  from r r1 l0 l1 a b c show ?thesis
    by (simp add: sample_empty_request_fields sample_request_fields)
qed

subsection \<open>Send and receive\<close>

text \<open>
  Claim C9. Either no pre-send hook is set, and then \<open>herr\<close> is nil and \<open>conn'\<close> is the
  connection; or the hook \<open>f\<close> is set, and then \<open>herr\<close> is the error that \<open>f\<close> returns
  on the connection and \<open>conn'\<close> is the connection as \<open>f\<close> leaves it. If \<open>herr\<close> is an
  error, \<^verbatim>\<open>Send\<close> and \<^verbatim>\<open>SendN\<close> return the count \<open>-1\<close> and that error, and they
  write nothing: the connection is as the hook left it. If \<open>herr\<close> is nil, \<^verbatim>\<open>Send\<close> is
  the connection's write of the message and \<^verbatim>\<open>SendN\<close> is the write of the buffers: what
  the connection has accepted grows by the first bytes of the message, or of the buffers
  laid end to end in their order, as many as the count returned; on a connection that does
  not fail these are all the bytes.
\<close>

theorem Send_pre_send_hook:
  assumes "beforeSend h = None \<and> herr = None \<and> conn' = conn \<or>
           beforeSend h = Some f \<and> f conn = (herr, conn')"
  shows
   "(herr \<noteq> None \<longrightarrow>
       Send h conn m = ((- 1, herr), conn') \<and> SendN h conn bs = ((- 1, herr), conn')) \<and>
    (herr = None \<longrightarrow>
       Send h conn m = Write conn' m \<and> SendN h conn bs = WriteTo bs conn' \<and>
       sent (snd (Send h conn m)) = sent conn' @ take (nat (fst (fst (Send h conn m)))) m \<and>
       sent (snd (SendN h conn bs)) =
         sent conn' @ take (nat (fst (fst (SendN h conn bs)))) (concat bs) \<and>
       (room conn' = None \<longrightarrow>
          Send h conn m = ((int (length m), None), conn'\<lparr>sent := sent conn' @ m\<rparr>) \<and>
          SendN h conn bs =
            ((int (length (concat bs)), None), conn'\<lparr>sent := sent conn' @ concat bs\<rparr>)))"
proof -
  have rh: "run_hook (beforeSend h) conn = (herr, conn')"
    using assms by (auto simp: run_hook_def)
  have b: "herr \<noteq> None \<longrightarrow>
       Send h conn m = ((- 1, herr), conn') \<and> SendN h conn bs = ((- 1, herr), conn')"
    using rh by (auto simp: Send_def SendN_def)
  have c1: "herr = None \<Longrightarrow> Send h conn m = Write conn' m"
    and c2: "herr = None \<Longrightarrow> SendN h conn bs = WriteTo bs conn'"
    using rh by (simp_all add: Send_def SendN_def)
  have c3: "sent (snd (Write conn' m)) = sent conn' @ take (nat (fst (fst (Write conn' m)))) m"
    using Write_sent [of conn' m "fst (fst (Write conn' m))" "snd (fst (Write conn' m))"
                         "snd (Write conn' m)"]
    by simp
  have c4: "sent (snd (WriteTo bs conn')) =
         sent conn' @ take (nat (fst (fst (WriteTo bs conn')))) (concat bs)"
    using WriteTo_sent [of bs conn' "fst (fst (WriteTo bs conn'))" "snd (fst (WriteTo bs conn'))"
                           "snd (WriteTo bs conn')"]
    by simp
  have c5: "room conn' = None \<Longrightarrow>
              Write conn' m = ((int (length m), None), conn'\<lparr>sent := sent conn' @ m\<rparr>)"
    by (simp add: Write_def)
  show ?thesis using b c1 c2 c3 c4 c5 WriteTo_healthy [of conn' bs] by simp
qed

text \<open>
  On a connection that has accepted one byte: a hook that vetoes; a hook that passes and
  changes the connection; no hook. And no hook on a connection that has room for two more
  bytes.
\<close>

theorem Send_pre_send_hook_witness:
  "beforeSend (NewHandler\<lparr>beforeSend := Some vetoing\<rparr>) = Some vetoing \<and>
   vetoing (sample_conn\<lparr>sent := [9]\<rparr>) = (Some (Err ''not now''), sample_conn\<lparr>sent := [9]\<rparr>) \<and>
   Send (NewHandler\<lparr>beforeSend := Some vetoing\<rparr>) (sample_conn\<lparr>sent := [9]\<rparr>) [1, 2, 3] =
     ((- 1, Some (Err ''not now'')), sample_conn\<lparr>sent := [9]\<rparr>) \<and>
   SendN (NewHandler\<lparr>beforeSend := Some vetoing\<rparr>) (sample_conn\<lparr>sent := [9]\<rparr>) [[1, 2], [3]] =
     ((- 1, Some (Err ''not now'')), sample_conn\<lparr>sent := [9]\<rparr>) \<and>
   beforeSend (NewHandler\<lparr>beforeSend := Some passing\<rparr>) = Some passing \<and>
   passing (sample_conn\<lparr>sent := [9]\<rparr>) =
     (None, sample_conn\<lparr>sent := [9], werr := Err ''deadline''\<rparr>) \<and>
   room (sample_conn\<lparr>sent := [9], werr := Err ''deadline''\<rparr>) = None \<and>
   Send (NewHandler\<lparr>beforeSend := Some passing\<rparr>) (sample_conn\<lparr>sent := [9]\<rparr>) [1, 2, 3] =
     ((3, None), sample_conn\<lparr>sent := [9, 1, 2, 3], werr := Err ''deadline''\<rparr>) \<and>
   SendN (NewHandler\<lparr>beforeSend := Some passing\<rparr>) (sample_conn\<lparr>sent := [9]\<rparr>) [[1, 2], [3]] =
     ((3, None), sample_conn\<lparr>sent := [9, 1, 2, 3], werr := Err ''deadline''\<rparr>) \<and>
   beforeSend NewHandler = None \<and> room (sample_conn\<lparr>sent := [9]\<rparr>) = None \<and>
   Send NewHandler (sample_conn\<lparr>sent := [9]\<rparr>) [1, 2, 3] =
     ((3, None), sample_conn\<lparr>sent := [9, 1, 2, 3]\<rparr>) \<and>
   SendN NewHandler (sample_conn\<lparr>sent := [9]\<rparr>) [[1, 2], [3]] =
     ((3, None), sample_conn\<lparr>sent := [9, 1, 2, 3]\<rparr>) \<and>
   SendN NewHandler (sample_conn\<lparr>room := Some 2\<rparr>) [[1], [2, 3], [4]] =
     ((2, Some (Err ''closed'')), sample_conn\<lparr>sent := [1, 2], room := Some 0\<rparr>)"
proof -
  let ?hv = "NewHandler\<lparr>beforeSend := Some vetoing\<rparr>"
  let ?hp = "NewHandler\<lparr>beforeSend := Some passing\<rparr>"
  let ?c9 = "sample_conn\<lparr>sent := [9]\<rparr>"
  let ?cd = "sample_conn\<lparr>sent := [9], werr := Err ''deadline''\<rparr>"
  let ?c2 = "sample_conn\<lparr>room := Some 2\<rparr>"
  have bv: "beforeSend ?hv = Some vetoing" and bp: "beforeSend ?hp = Some passing"
    by simp_all
  have hn: "beforeSend NewHandler = None"
    by (simp add: NewHandler_def)
  have fv: "vetoing ?c9 = (Some (Err ''not now''), ?c9)"
    by (simp add: vetoing_def)
  have fp: "passing ?c9 = (None, ?cd)"
    by (simp add: passing_def)
  have rn: "room ?c9 = None" and rd: "room ?cd = None"
    by (simp_all add: sample_conn_def)
  have v: "beforeSend ?hv = None \<and> Some (Err ''not now'') = None \<and> ?c9 = ?c9 \<or>
           beforeSend ?hv = Some vetoing \<and> vetoing ?c9 = (Some (Err ''not now''), ?c9)"
    using bv fv by simp
  have p: "beforeSend ?hp = None \<and> None = None \<and> ?cd = ?c9 \<or>
           beforeSend ?hp = Some passing \<and> passing ?c9 = (None, ?cd)"
    using bp fp by simp
  have n: "beforeSend NewHandler = None \<and> None = None \<and> ?c9 = ?c9 \<or>
           beforeSend NewHandler = Some passing \<and> passing ?c9 = (None, ?c9)"
    using hn by simp
  have n2: "beforeSend NewHandler = None \<and> None = None \<and> ?c2 = ?c2 \<or>
            beforeSend NewHandler = Some passing \<and> passing ?c2 = (None, ?c2)"
    using hn by simp
  have w2: "WriteTo [[1], [2, 3], [4]] ?c2 =
              ((2, Some (Err ''closed'')), sample_conn\<lparr>sent := [1, 2], room := Some 0\<rparr>)"
    by (simp add: Write_def sample_conn_def)
  from Send_pre_send_hook [OF v, of "[1, 2, 3]" "[[1, 2], [3]]"]
  have a: "Send ?hv ?c9 [1, 2, 3] = ((- 1, Some (Err ''not now'')), ?c9) \<and>
           SendN ?hv ?c9 [[1, 2], [3]] = ((- 1, Some (Err ''not now'')), ?c9)"
    by simp
  from Send_pre_send_hook [OF p, of "[1, 2, 3]" "[[1, 2], [3]]"] rd
  have "Send ?hp ?c9 [1, 2, 3] =
          ((int (length [1, 2, 3 :: byte]), None), ?cd\<lparr>sent := sent ?cd @ [1, 2, 3]\<rparr>) \<and>
        SendN ?hp ?c9 [[1, 2], [3]] =
          ((int (length (concat [[1, 2], [3 :: byte]])), None),
           ?cd\<lparr>sent := sent ?cd @ concat [[1, 2], [3]]\<rparr>)"
    by blast
  then have d: "Send ?hp ?c9 [1, 2, 3] =
             ((3, None), sample_conn\<lparr>sent := [9, 1, 2, 3], werr := Err ''deadline''\<rparr>) \<and>
           SendN ?hp ?c9 [[1, 2], [3]] =
             ((3, None), sample_conn\<lparr>sent := [9, 1, 2, 3], werr := Err ''deadline''\<rparr>)"
    by (simp add: sample_conn_def)
  from Send_pre_send_hook [OF n, of "[1, 2, 3]" "[[1, 2], [3]]"] rn
  have "Send NewHandler ?c9 [1, 2, 3] =
          ((int (length [1, 2, 3 :: byte]), None), ?c9\<lparr>sent := sent ?c9 @ [1, 2, 3]\<rparr>) \<and>
        SendN NewHandler ?c9 [[1, 2], [3]] =
          ((int (length (concat [[1, 2], [3 :: byte]])), None),
           ?c9\<lparr>sent := sent ?c9 @ concat [[1, 2], [3]]\<rparr>)"
    by blast
  then have b: "Send NewHandler ?c9 [1, 2, 3] = ((3, None), sample_conn\<lparr>sent := [9, 1, 2, 3]\<rparr>) \<and>
           SendN NewHandler ?c9 [[1, 2], [3]] = ((3, None), sample_conn\<lparr>sent := [9, 1, 2, 3]\<rparr>)"
    by simp
  from Send_pre_send_hook [OF n2, of "[1, 2, 3]" "[[1], [2, 3], [4]]"]
  have "SendN NewHandler ?c2 [[1], [2, 3], [4]] = WriteTo [[1], [2, 3], [4]] ?c2"
    by blast
  with w2
  have c: "SendN NewHandler ?c2 [[1], [2, 3], [4]] =
             ((2, Some (Err ''closed'')), sample_conn\<lparr>sent := [1, 2], room := Some 0\<rparr>)"
    by simp
  from bv bp hn fv fp rn rd a b c d show ?thesis by simp
qed

text \<open>
  Claim C3. Let the client's head buffer have \<open>HeadLen\<close> bytes. Either no pre-receive
  hook is set, and then \<open>herr\<close> is nil and \<open>conn'\<close> is the client's connection; or the
  hook \<open>f\<close> is set, and then \<open>herr\<close> is the error that \<open>f\<close> returns on the client's
  connection and \<open>conn'\<close> is the connection as \<open>f\<close> leaves it. \<^verbatim>\<open>Recv\<close> leaves the
  client with the connection \<open>conn'\<close>. If \<open>herr\<close> is an error, \<^verbatim>\<open>Recv\<close> returns it
  with no message and the reader is untouched: no byte is read. Otherwise \<^verbatim>\<open>Recv\<close>
  reads \<open>HeadLen\<close> bytes into the head buffer and fails with an error and no message when
  the source has fewer. It then decodes the head: on a decoding error, or when the decoded
  message is no longer than \<open>HeadLen\<close>, that result is returned and exactly \<open>HeadLen\<close>
  bytes are used up. When the decoded message is longer, \<^verbatim>\<open>Recv\<close> reads the remaining
  \<open>length m - HeadLen\<close> bytes into the same buffer behind the head: with enough bytes
  in the source it returns the whole message without error and has used up exactly
  \<open>length m\<close> bytes; with too few it returns an error.
\<close>

theorem Recv_algorithm:
  assumes hl: "length (Head c) = HeadLen w"
    and hook: "beforeRecv h = None \<and> herr = None \<and> conn' = Conn c \<or>
               beforeRecv h = Some f \<and> f (Conn c) = (herr, conn')"
  shows
   "Conn (snd (Recv w h c)) = conn' \<and>
    (herr \<noteq> None \<longrightarrow> Recv w h c = (([], herr), c\<lparr>Conn := conn'\<rparr>)) \<and>
    (herr = None \<and> length (pending (Reader c)) < HeadLen w \<longrightarrow>
       (\<exists>e. fst (Recv w h c) = ([], Some e))) \<and>
    (herr = None \<and> HeadLen w \<le> length (pending (Reader c)) \<and>
     message w (take (HeadLen w) (pending (Reader c))) = (m, derr) \<longrightarrow>
       Head (snd (Recv w h c)) = take (HeadLen w) (pending (Reader c)) \<and>
       (derr \<noteq> None \<or> length m \<le> HeadLen w \<longrightarrow>
          fst (Recv w h c) = (m, derr) \<and>
          pending (Reader (snd (Recv w h c))) = drop (HeadLen w) (pending (Reader c))) \<and>
       (derr = None \<and> HeadLen w < length m \<and> length m \<le> length (pending (Reader c)) \<longrightarrow>
          fst (Recv w h c) =
            (take (HeadLen w) m @
             take (length m - HeadLen w) (drop (HeadLen w) (pending (Reader c))), None) \<and>
          pending (Reader (snd (Recv w h c))) = drop (length m) (pending (Reader c))) \<and>
       (derr = None \<and> HeadLen w < length m \<and> length (pending (Reader c)) < length m \<longrightarrow>
          (\<exists>e. snd (fst (Recv w h c)) = Some e)))"
proof -
  let ?p = "pending (Reader c)"
  have hk: "run_hook (beforeRecv h) (Conn c) = (herr, conn')"
    using hook by (auto simp: run_hook_def)
  have K: "Conn (snd (Recv w h c)) = conn'"
    using hk by (auto simp: Recv_def Let_def split: prod.splits option.splits)
  have A: "herr \<noteq> None \<longrightarrow> Recv w h c = (([], herr), c\<lparr>Conn := conn'\<rparr>)"
    using hk by (auto simp: Recv_def)
  have B: "herr = None \<and> length ?p < HeadLen w \<longrightarrow> (\<exists>e. fst (Recv w h c) = ([], Some e))"
  proof (intro impI, elim conjE)
    assume n: "herr = None" and s: "length ?p < HeadLen w"
    from s hl obtain e where
      "ReadFull (Reader c) (length (Head c)) = ((?p, Some e), (Reader c)\<lparr>pending := []\<rparr>)"
      using ReadFull_short [of "Reader c" "length (Head c)"] by auto
    with hk n show "\<exists>e. fst (Recv w h c) = ([], Some e)" by (simp add: Recv_def)
  qed
  have C: "herr = None \<and> HeadLen w \<le> length ?p \<and> message w (take (HeadLen w) ?p) = (m, derr) \<longrightarrow>
       Head (snd (Recv w h c)) = take (HeadLen w) ?p \<and>
       (derr \<noteq> None \<or> length m \<le> HeadLen w \<longrightarrow>
          fst (Recv w h c) = (m, derr) \<and>
          pending (Reader (snd (Recv w h c))) = drop (HeadLen w) ?p) \<and>
       (derr = None \<and> HeadLen w < length m \<and> length m \<le> length ?p \<longrightarrow>
          fst (Recv w h c) =
            (take (HeadLen w) m @ take (length m - HeadLen w) (drop (HeadLen w) ?p), None) \<and>
          pending (Reader (snd (Recv w h c))) = drop (length m) ?p) \<and>
       (derr = None \<and> HeadLen w < length m \<and> length ?p < length m \<longrightarrow>
          (\<exists>e. snd (fst (Recv w h c)) = Some e))"
  proof (intro impI, elim conjE)
    assume n: "herr = None" and ge: "HeadLen w \<le> length ?p"
      and d: "message w (take (HeadLen w) ?p) = (m, derr)"
    let ?r1 = "(Reader c)\<lparr>pending := drop (HeadLen w) ?p\<rparr>"
    let ?c1 = "c\<lparr>Conn := conn', Reader := ?r1, Head := take (HeadLen w) ?p\<rparr>"
    have rd: "ReadFull (Reader c) (length (Head c)) = ((take (HeadLen w) ?p, None), ?r1)"
      using ge hl by (simp add: ReadFull_enough)
    have fl: "fill (Head c) 0 (take (HeadLen w) ?p) = take (HeadLen w) ?p"
      using ge hl by (simp add: fill_all)
    have step: "Recv w h c =
        (case derr of
           Some e \<Rightarrow> ((m, Some e), ?c1)
         | None \<Rightarrow>
             if length m > HeadLen w
             then (case ReadFull ?r1 (length m - HeadLen w) of
                     ((rest, err), r2) \<Rightarrow> ((fill m (HeadLen w) rest, err), ?c1\<lparr>Reader := r2\<rparr>))
             else ((m, None), ?c1))"
      using hk n rd fl d by (cases derr) (simp_all add: Recv_def Let_def)
    have h1: "Head (snd (Recv w h c)) = take (HeadLen w) ?p"
      unfolding step by (simp split: option.splits prod.splits)
    have h2: "derr \<noteq> None \<or> length m \<le> HeadLen w \<longrightarrow>
          fst (Recv w h c) = (m, derr) \<and>
          pending (Reader (snd (Recv w h c))) = drop (HeadLen w) ?p"
      unfolding step by (auto split: option.splits)
    have h3: "derr = None \<and> HeadLen w < length m \<and> length m \<le> length ?p \<longrightarrow>
          fst (Recv w h c) =
            (take (HeadLen w) m @ take (length m - HeadLen w) (drop (HeadLen w) ?p), None) \<and>
          pending (Reader (snd (Recv w h c))) = drop (length m) ?p"
    proof (intro impI, elim conjE)
      assume dn: "derr = None" and lt: "HeadLen w < length m" and en: "length m \<le> length ?p"
      have "ReadFull ?r1 (length m - HeadLen w) =
              ((take (length m - HeadLen w) (drop (HeadLen w) ?p), None),
               ?r1\<lparr>pending := drop (length m - HeadLen w) (drop (HeadLen w) ?p)\<rparr>)"
        using lt en by (simp add: ReadFull_enough)
      moreover have "fill m (HeadLen w) (take (length m - HeadLen w) (drop (HeadLen w) ?p)) =
              take (HeadLen w) m @ take (length m - HeadLen w) (drop (HeadLen w) ?p)"
        using lt en by (simp add: fill_tail)
      ultimately show "fst (Recv w h c) =
            (take (HeadLen w) m @ take (length m - HeadLen w) (drop (HeadLen w) ?p), None) \<and>
          pending (Reader (snd (Recv w h c))) = drop (length m) ?p"
        unfolding step using dn lt by simp
    qed
    have h4: "derr = None \<and> HeadLen w < length m \<and> length ?p < length m \<longrightarrow>
          (\<exists>e. snd (fst (Recv w h c)) = Some e)"
    proof (intro impI, elim conjE)
      assume dn: "derr = None" and lt: "HeadLen w < length m" and sh: "length ?p < length m"
      have "length (pending ?r1) < length m - HeadLen w" using ge lt sh by simp
      then obtain e where
        "ReadFull ?r1 (length m - HeadLen w) = ((pending ?r1, Some e), ?r1\<lparr>pending := []\<rparr>)"
        using ReadFull_short [of ?r1 "length m - HeadLen w"] by blast
      then show "\<exists>e. snd (fst (Recv w h c)) = Some e"
        unfolding step using dn lt by simp
    qed
    from h1 h2 h3 h4 show "Head (snd (Recv w h c)) = take (HeadLen w) ?p \<and>
       (derr \<noteq> None \<or> length m \<le> HeadLen w \<longrightarrow>
          fst (Recv w h c) = (m, derr) \<and>
          pending (Reader (snd (Recv w h c))) = drop (HeadLen w) ?p) \<and>
       (derr = None \<and> HeadLen w < length m \<and> length m \<le> length ?p \<longrightarrow>
          fst (Recv w h c) =
            (take (HeadLen w) m @ take (length m - HeadLen w) (drop (HeadLen w) ?p), None) \<and>
          pending (Reader (snd (Recv w h c))) = drop (length m) ?p) \<and>
       (derr = None \<and> HeadLen w < length m \<and> length ?p < length m \<longrightarrow>
          (\<exists>e. snd (fst (Recv w h c)) = Some e))" by blast
  qed
  from K A B C show ?thesis by blast
qed

text \<open>
  On the sample format: a vetoing hook; a hook that passes and changes the connection,
  before a message of six bytes followed by two more bytes; then, with no hook, a source
  with two bytes; the message of six bytes; the same message cut after five bytes; a
  message that is its head alone; and a head that does not decode.
\<close>

theorem Recv_algorithm_witness:
  "length (Head (reading [6, 1, 0, 2, 104, 105, 9, 9])) = HeadLen sample_wire \<and>
   beforeRecv (NewHandler\<lparr>beforeRecv := Some vetoing\<rparr>) = Some vetoing \<and>
   vetoing (Conn (reading [6, 1, 0, 2, 104, 105, 9, 9])) =
     (Some (Err ''not now''), sample_conn) \<and>
   Recv sample_wire (NewHandler\<lparr>beforeRecv := Some vetoing\<rparr>)
       (reading [6, 1, 0, 2, 104, 105, 9, 9]) =
     (([], Some (Err ''not now'')), reading [6, 1, 0, 2, 104, 105, 9, 9]) \<and>
   beforeRecv (NewHandler\<lparr>beforeRecv := Some passing\<rparr>) = Some passing \<and>
   passing (Conn (reading [6, 1, 0, 2, 104, 105, 9, 9])) =
     (None, sample_conn\<lparr>werr := Err ''deadline''\<rparr>) \<and>
   message sample_wire (take (HeadLen sample_wire) [6, 1, 0, 2, 104, 105, 9, 9]) =
     ([6, 1, 0, 2, 0, 0], None) \<and>
   fst (Recv sample_wire (NewHandler\<lparr>beforeRecv := Some passing\<rparr>)
          (reading [6, 1, 0, 2, 104, 105, 9, 9])) =
     ([6, 1, 0, 2, 104, 105], None) \<and>
   Conn (snd (Recv sample_wire (NewHandler\<lparr>beforeRecv := Some passing\<rparr>)
                (reading [6, 1, 0, 2, 104, 105, 9, 9]))) =
     sample_conn\<lparr>werr := Err ''deadline''\<rparr> \<and>
   pending (Reader (snd (Recv sample_wire (NewHandler\<lparr>beforeRecv := Some passing\<rparr>)
                           (reading [6, 1, 0, 2, 104, 105, 9, 9])))) = [9, 9] \<and>
   beforeRecv NewHandler = None \<and>
   length (pending (Reader (reading [6, 1]))) < HeadLen sample_wire \<and>
   (\<exists>e. fst (Recv sample_wire NewHandler (reading [6, 1])) = ([], Some e)) \<and>
   fst (Recv sample_wire NewHandler (reading [6, 1, 0, 2, 104, 105, 9, 9])) =
     ([6, 1, 0, 2, 104, 105], None) \<and>
   pending (Reader (snd (Recv sample_wire NewHandler (reading [6, 1, 0, 2, 104, 105, 9, 9])))) =
     [9, 9] \<and>
   Conn (snd (Recv sample_wire NewHandler (reading [6, 1, 0, 2, 104, 105, 9, 9]))) =
     sample_conn \<and>
   (\<exists>e. snd (fst (Recv sample_wire NewHandler (reading [6, 1, 0, 2, 104]))) = Some e) \<and>
   fst (Recv sample_wire NewHandler (reading [4, 1, 0, 0, 7])) = ([4, 1, 0, 0], None) \<and>
   pending (Reader (snd (Recv sample_wire NewHandler (reading [4, 1, 0, 0, 7])))) = [7] \<and>
   fst (Recv sample_wire NewHandler (reading [2, 1, 0, 0, 7])) =
     ([], Some (Err ''invalid head''))"
proof -
  let ?hv = "NewHandler\<lparr>beforeRecv := Some vetoing\<rparr>"
  let ?hp = "NewHandler\<lparr>beforeRecv := Some passing\<rparr>"
  let ?cd = "sample_conn\<lparr>werr := Err ''deadline''\<rparr>"
  let ?full = "[6, 1, 0, 2, 104, 105, 9, 9] :: byte list"
  have hl: "length (Head (reading bs)) = HeadLen sample_wire" for bs
    by (simp add: reading_def sample_client_def sample_wire_def)
  have cn: "Conn (reading bs) = sample_conn" for bs
    by (simp add: reading_def sample_client_def)
  have pd: "pending (Reader (reading bs)) = bs" for bs
    by (simp add: reading_def)
  have hd4: "HeadLen sample_wire = 4"
    by (simp add: sample_wire_def)
  have bv: "beforeRecv ?hv = Some vetoing" and bp: "beforeRecv ?hp = Some passing"
    by simp_all
  have hn: "beforeRecv NewHandler = None"
    by (simp add: NewHandler_def)
  have fv: "vetoing (Conn (reading bs)) = (Some (Err ''not now''), sample_conn)" for bs
    by (simp add: vetoing_def cn)
  have fp: "passing (Conn (reading bs)) = (None, ?cd)" for bs
    by (simp add: passing_def cn)
  have v: "beforeRecv ?hv = None \<and> Some (Err ''not now'') = None \<and> sample_conn = Conn (reading bs) \<or>
           beforeRecv ?hv = Some vetoing \<and>
           vetoing (Conn (reading bs)) = (Some (Err ''not now''), sample_conn)" for bs
    using bv fv by simp
  have p: "beforeRecv ?hp = None \<and> None = None \<and> ?cd = Conn (reading bs) \<or>
           beforeRecv ?hp = Some passing \<and> passing (Conn (reading bs)) = (None, ?cd)" for bs
    using bp fp by simp
  have n: "beforeRecv NewHandler = None \<and> None = None \<and> sample_conn = Conn (reading bs) \<or>
           beforeRecv NewHandler = Some passing \<and>
           passing (Conn (reading bs)) = (None, sample_conn)" for bs
    using hn cn by simp
  have same: "(reading bs)\<lparr>Conn := sample_conn\<rparr> = reading bs" for bs
    by (simp add: reading_def sample_client_def)
  from Recv_algorithm [OF hl [of ?full] v [of ?full]]
  have a: "Recv sample_wire ?hv (reading ?full) = (([], Some (Err ''not now'')), reading ?full)"
    by (simp add: same)
  from Recv_algorithm [OF hl [of ?full] p [of ?full], of "[6, 1, 0, 2, 0, 0]" None]
  have g: "fst (Recv sample_wire ?hp (reading ?full)) = ([6, 1, 0, 2, 104, 105], None) \<and>
           Conn (snd (Recv sample_wire ?hp (reading ?full))) = ?cd \<and>
           pending (Reader (snd (Recv sample_wire ?hp (reading ?full)))) = [9, 9]"
    by (simp add: pd hd4 sample_heads)
  from Recv_algorithm [OF hl [of "[6, 1]"] n [of "[6, 1]"]]
  have b: "\<exists>e. fst (Recv sample_wire NewHandler (reading [6, 1])) = ([], Some e)"
    by (simp add: pd hd4)
  from Recv_algorithm [OF hl [of ?full] n [of ?full], of "[6, 1, 0, 2, 0, 0]" None]
  have c: "fst (Recv sample_wire NewHandler (reading ?full)) = ([6, 1, 0, 2, 104, 105], None) \<and>
           pending (Reader (snd (Recv sample_wire NewHandler (reading ?full)))) = [9, 9] \<and>
           Conn (snd (Recv sample_wire NewHandler (reading ?full))) = sample_conn"
    by (simp add: pd hd4 sample_heads)
  from Recv_algorithm [OF hl [of "[6, 1, 0, 2, 104]"] n [of "[6, 1, 0, 2, 104]"],
                       of "[6, 1, 0, 2, 0, 0]" None]
  have d: "\<exists>e. snd (fst (Recv sample_wire NewHandler (reading [6, 1, 0, 2, 104]))) = Some e"
    by (simp add: pd hd4 sample_heads)
  from Recv_algorithm [OF hl [of "[4, 1, 0, 0, 7]"] n [of "[4, 1, 0, 0, 7]"],
                       of "[4, 1, 0, 0]" None]
  have e: "fst (Recv sample_wire NewHandler (reading [4, 1, 0, 0, 7])) = ([4, 1, 0, 0], None) \<and>
           pending (Reader (snd (Recv sample_wire NewHandler (reading [4, 1, 0, 0, 7])))) = [7]"
    by (simp add: pd hd4 sample_heads)
  from Recv_algorithm [OF hl [of "[2, 1, 0, 0, 7]"] n [of "[2, 1, 0, 0, 7]"],
                       of "[]" "Some (Err ''invalid head'')"]
  have f: "fst (Recv sample_wire NewHandler (reading [2, 1, 0, 0, 7])) =
             ([], Some (Err ''invalid head''))"
    by (simp add: pd hd4 sample_heads)
  from hl bv bp hn fv fp a b c d e f g show ?thesis
    by (simp add: pd hd4 sample_heads)
qed

end
